theory Spec2Isabelle
  imports Complex_Main "HOL-Library.Sublist" "HOL-Library.Word"
begin

section \<open>Python values used by \<^verbatim>\<open>app/api_clients.py\<close> and \<^verbatim>\<open>app/database.py\<close>\<close>

subsection \<open>Strings\<close>

text \<open>
  Messages are modelled as lists of 8-bit characters. \<^verbatim>\<open>str.lower()\<close> is modelled on
  the ASCII letters, which is all the five keywords of the classifier can match.
\<close>

definition to_lower :: "char \<Rightarrow> char" where
  "to_lower c =
     (case map_of (zip ''ABCDEFGHIJKLMNOPQRSTUVWXYZ'' ''abcdefghijklmnopqrstuvwxyz'') c of
        Some l \<Rightarrow> l
      | None \<Rightarrow> c)"

definition lower :: "string \<Rightarrow> string" where
  "lower s = map to_lower s"

text \<open>Python's \<^verbatim>\<open>sub in s\<close> on strings: \<^verbatim>\<open>sub\<close> occurs as a contiguous run of \<^verbatim>\<open>s\<close>.\<close>

fun str_in :: "string \<Rightarrow> string \<Rightarrow> bool" where
  "str_in sub [] = (sub = [])"
| "str_in sub (c # cs) = (prefix sub (c # cs) \<or> str_in sub cs)"

subsection \<open>Exceptions\<close>

text \<open>
  An exception is its class and the text \<^verbatim>\<open>str(e)\<close>. Only classes deriving from
  \<^verbatim>\<open>Exception\<close> are modelled: these are the ones a provider SDK, the breaker or the
  Redis client raise, and the ones \<^verbatim>\<open>except Exception\<close> catches.
  \<open>ProviderSDKError\<close> stands for any exception class of the \<^verbatim>\<open>openai\<close> and
  \<^verbatim>\<open>anthropic\<close> packages.
\<close>

datatype exn_class =
    APIClientError | CircuitBreakerError | ProviderSDKError
  | TypeError | IndexError | AttributeError | ValueError
  | RedisError | JSONDecodeError

datatype exn = Exn (exn_class: exn_class) (str_of: string)

subsection \<open>\<^verbatim>\<open>APIResponse\<close>\<close>

record APIResponse =
  success :: bool
  data :: "string option"
  error :: "string option"
  status_code :: "int option"
  response_time :: "real option"
  provider :: "string option"
  model :: "string option"
  tokens_used :: "int option"

text \<open>The dataclass constructor: every field but \<^verbatim>\<open>success\<close> defaults to \<^verbatim>\<open>None\<close>.\<close>

definition APIResponse_init :: "bool \<Rightarrow> APIResponse" where
  "APIResponse_init s =
     \<lparr>success = s, data = None, error = None, status_code = None,
      response_time = None, provider = None, model = None, tokens_used = None\<rparr>"

section \<open>\<^verbatim>\<open>BaseAPIClient._handle_error\<close>\<close>

definition BaseAPIClient_handle_error :: "exn \<Rightarrow> string \<Rightarrow> APIResponse" where
  "BaseAPIClient_handle_error e prov =
     (let error_message = str_of e in
      if str_in ''rate limit'' (lower error_message) then
        (APIResponse_init False)\<lparr>error := Some ''Rate limit exceeded'', provider := Some prov\<rparr>
      else if str_in ''authentication'' (lower error_message)
              \<or> str_in ''unauthorized'' (lower error_message) then
        (APIResponse_init False)\<lparr>error := Some ''Authentication failed'', provider := Some prov\<rparr>
      else if str_in ''quota'' (lower error_message)
              \<or> str_in ''billing'' (lower error_message) then
        (APIResponse_init False)\<lparr>error := Some ''API quota exceeded'', provider := Some prov\<rparr>
      else
        (APIResponse_init False)\<lparr>error := Some (''API error: '' @ error_message),
                                  provider := Some prov\<rparr>)"

subsection \<open>The classification as the specification words it\<close>

text \<open>
  The specification names the classes of failure and defines the classifier as a
  case-insensitive substring match in a fixed order. \<open>spec_classify\<close> follows those
  words; \<open>error_text\<close> is the text under which the source stores each class in
  \<^verbatim>\<open>APIResponse.error\<close>.
\<close>

datatype failure_reason = RateLimited | AuthFailed | QuotaExceeded | ProviderError string

definition contains_ci :: "string \<Rightarrow> string \<Rightarrow> bool" where
  "contains_ci kw msg = (\<exists>u. sublist u msg \<and> lower u = lower kw)"

definition spec_classify :: "string \<Rightarrow> failure_reason" where
  "spec_classify msg =
     (if contains_ci ''rate limit'' msg then RateLimited
      else if contains_ci ''authentication'' msg \<or> contains_ci ''unauthorized'' msg
        then AuthFailed
      else if contains_ci ''quota'' msg \<or> contains_ci ''billing'' msg then QuotaExceeded
      else ProviderError msg)"

fun error_text :: "failure_reason \<Rightarrow> string" where
  "error_text RateLimited = ''Rate limit exceeded''"
| "error_text AuthFailed = ''Authentication failed''"
| "error_text QuotaExceeded = ''API quota exceeded''"
| "error_text (ProviderError msg) = ''API error: '' @ msg"

section \<open>Python helpers\<close>

text \<open>\<^verbatim>\<open>a or b\<close> on optional strings: \<^verbatim>\<open>None\<close> and the empty string are falsy.\<close>

fun truthy :: "string option \<Rightarrow> bool" where
  "truthy None = False"
| "truthy (Some s) = (s \<noteq> [])"

definition py_or :: "string option \<Rightarrow> string option \<Rightarrow> string option" where
  "py_or a b = (if truthy a then a else b)"

fun or_str :: "string option \<Rightarrow> string \<Rightarrow> string" where
  "or_str None d = d"
| "or_str (Some s) d = (if s = [] then d else s)"

text \<open>\<^verbatim>\<open>kwargs.get(name, default)\<close>; an absent keyword is \<open>None\<close>.\<close>

fun kwargs_get :: "'a option \<Rightarrow> 'a \<Rightarrow> 'a" where
  "kwargs_get None d = d"
| "kwargs_get (Some v) d = v"

text \<open>\<^verbatim>\<open>str.strip()\<close>, on the ASCII white space.\<close>

definition isspace :: "char \<Rightarrow> bool" where
  "isspace c =
     (c \<in> set [CHR '' '', CHR 0x09, CHR 0x0A, CHR 0x0B, CHR 0x0C, CHR 0x0D,
                CHR 0x1C, CHR 0x1D, CHR 0x1E, CHR 0x1F])"

definition strip :: "string \<Rightarrow> string" where
  "strip s = rev (dropWhile isspace (rev (dropWhile isspace s)))"

text \<open>\<^verbatim>\<open>str(n)\<close> for an integer, as the f-string of the registry key formats it.\<close>

definition digit_char :: "nat \<Rightarrow> char" where
  "digit_char d = ''0123456789'' ! d"

fun str_nat :: "nat \<Rightarrow> string" where
  "str_nat n =
     (if n < 10 then [digit_char n] else str_nat (n div 10) @ [digit_char (n mod 10)])"

declare str_nat.simps [simp del]

definition str_int :: "int \<Rightarrow> string" where
  "str_int i = (if i < 0 then CHR ''-'' # str_nat (nat (- i)) else str_nat (nat i))"

text \<open>Sequencing of computations that may raise.\<close>

fun bind_exn :: "exn + 'a \<Rightarrow> ('a \<Rightarrow> exn + 'b) \<Rightarrow> exn + 'b" where
  "bind_exn (Inl e) f = Inl e"
| "bind_exn (Inr v) f = f v"

text \<open>
  \<^verbatim>\<open>try: body except Exception as e: return handler(e)\<close>. Every modelled exception
  derives from \<^verbatim>\<open>Exception\<close>, so the handler takes them all.
\<close>

fun except_Exception :: "exn + 'a \<Rightarrow> (exn \<Rightarrow> exn + 'a) \<Rightarrow> exn + 'a" where
  "except_Exception (Inr v) handler = Inr v"
| "except_Exception (Inl e) handler = handler e"


section \<open>Providers, options, native calls\<close>

datatype APIProvider = OPENAI | ANTHROPIC

fun provider_value :: "APIProvider \<Rightarrow> string" where
  "provider_value OPENAI = ''openai''"
| "provider_value ANTHROPIC = ''anthropic''"

text \<open>The keyword arguments the code reads; \<open>None\<close> is an absent keyword.\<close>

record kwargs =
  kw_api_key :: "string option"
  kw_base_url :: "string option"
  kw_model :: "string option"
  kw_max_tokens :: "int option"
  kw_temperature :: "real option"
  kw_top_p :: "real option"
  kw_frequency_penalty :: "real option"
  kw_presence_penalty :: "real option"
  kw_stream :: "bool option"

text \<open>A chat message is a dictionary, kept as an association list.\<close>

type_synonym message = "(string \<times> string) list"

text \<open>
  The three calls into the provider SDKs with the arguments the adapters pass:
  \<^verbatim>\<open>client.completions.create\<close>, \<^verbatim>\<open>client.chat.completions.create\<close> (OpenAI) and
  \<^verbatim>\<open>client.messages.create\<close> (Anthropic).
\<close>

datatype native_call =
    Completions_create string string int real real real real
  | Chat_completions_create string "message list" int real real real real bool
  | Messages_create string "message list" int real real

text \<open>What the SDKs return, as far as the adapters read it.\<close>

record openai_completion =
  choices_text :: "string list"
  completion_model :: string
  completion_total_tokens :: "int option"

datatype openai_chat =
    ChatCompletion (choices_content: "string option list") (chat_model: string)
                   (chat_total_tokens: "int option")
  | Stream

datatype content_block = TextBlock string | ToolUseBlock

record anthropic_message =
  content :: "content_block list"
  message_model :: string
  input_tokens :: int
  output_tokens :: int

section \<open>Circuit breaker, handles and the world\<close>

datatype breaker_state = STATE_CLOSED | STATE_OPEN | STATE_HALF_OPEN

record CircuitBreaker =
  current_state :: breaker_state
  fail_counter :: nat
  fail_max :: nat

text \<open>
  A handle (\<^verbatim>\<open>OpenAIClient\<close> or \<^verbatim>\<open>AnthropicClient\<close>). \<open>client_id\<close> is the identity of
  the Python object; \<open>circuit_breaker\<close> is the reference taken at construction
  (\<^verbatim>\<open>get_openai_breaker()\<close>, \<^verbatim>\<open>get_anthropic_breaker()\<close>): the identity of a breaker
  object, or \<open>None\<close>. The transport objects (\<^verbatim>\<open>session\<close>, \<^verbatim>\<open>client\<close>) are represented by the
  native calls of the world.
\<close>

record client =
  client_id :: nat
  client_class :: APIProvider
  api_key :: string
  base_url :: string
  timeout :: int
  client_model :: string
  circuit_breaker :: "nat option"

text \<open>
  Everything outside the functions that they read or change: the process environment, the
  class attribute \<^verbatim>\<open>APIClientFactory._clients\<close>, the allocator of object identities, the
  module globals \<^verbatim>\<open>openai_breaker\<close> and \<^verbatim>\<open>anthropic_breaker\<close> of
  \<^verbatim>\<open>app/extensions.py\<close> (\<open>None\<close> until \<^verbatim>\<open>init_circuit_breakers\<close> has run, then the
  identity of a breaker object), the breaker objects by identity, Python's
  \<^verbatim>\<open>hash\<close> on strings (a machine word), the clock \<^verbatim>\<open>time.time()\<close>, and the providers:
  the outcome and duration of the \<open>n\<close>-th network call, and the list of network calls
  made so far.
\<close>

record world =
  environ :: "string \<Rightarrow> string option"
  clients :: "string \<Rightarrow> client option"
  next_id :: nat
  breakers :: "APIProvider \<Rightarrow> nat option"
  breaker_objects :: "nat \<Rightarrow> CircuitBreaker"
  str_hash :: "string \<Rightarrow> 64 word"
  now :: real
  completions_create :: "nat \<Rightarrow> native_call \<Rightarrow> exn + openai_completion"
  chat_completions_create :: "nat \<Rightarrow> native_call \<Rightarrow> exn + openai_chat"
  messages_create :: "nat \<Rightarrow> native_call \<Rightarrow> exn + anthropic_message"
  latency :: "nat \<Rightarrow> real"
  network_calls :: "native_call list"

text \<open>One network call: the provider answers, time passes, the call is recorded.\<close>

definition sdk_call ::
  "(world \<Rightarrow> nat \<Rightarrow> native_call \<Rightarrow> exn + 'a) \<Rightarrow> native_call \<Rightarrow> world \<Rightarrow> (exn + 'a) \<times> world" where
  "sdk_call endpoint call w =
     (let n = length (network_calls w) in
      (endpoint w n call,
       w\<lparr>now := now w + latency w n, network_calls := network_calls w @ [call]\<rparr>))"

text \<open>
  Modelled from the spec: the circuit breaker is the library \<^verbatim>\<open>pybreaker\<close>, which is not
  part of the repository. Section 4.4 gives its contract: guarding an operation yields the
  operation's result or fails with the breaker's own error when the breaker has tripped;
  closed goes to open after \<open>fail_max\<close> consecutive failures, half-open admits one trial
  call, a success closes the breaker. An open breaker rejects without running the
  operation. The cooldown from open to half-open is real time and is not a step of this
  function: \<open>STATE_OPEN\<close> is a breaker whose cooldown has not elapsed.
\<close>

definition CircuitBreaker_call ::
  "nat \<Rightarrow> (world \<Rightarrow> (exn + 'a) \<times> world) \<Rightarrow> world \<Rightarrow> (exn + 'a) \<times> world" where
  "CircuitBreaker_call a request_func w =
     (let b = breaker_objects w a in
      if current_state b = STATE_OPEN then
        (Inl (Exn CircuitBreakerError ''Timeout not elapsed yet, circuit breaker still open''), w)
      else
        (case request_func w of
           (Inr v, w') \<Rightarrow>
             (Inr v, w'\<lparr>breaker_objects := (breaker_objects w')
                (a := b\<lparr>current_state := STATE_CLOSED, fail_counter := 0\<rparr>)\<rparr>)
         | (Inl e, w') \<Rightarrow>
             if current_state b = STATE_HALF_OPEN \<or> fail_max b \<le> Suc (fail_counter b) then
               (Inl (Exn CircuitBreakerError ''Failures threshold reached, circuit breaker opened''),
                w'\<lparr>breaker_objects := (breaker_objects w')
                  (a := b\<lparr>current_state := STATE_OPEN,
                          fail_counter := Suc (fail_counter b)\<rparr>)\<rparr>)
             else
               (Inl e, w'\<lparr>breaker_objects := (breaker_objects w')
                  (a := b\<lparr>fail_counter := Suc (fail_counter b)\<rparr>)\<rparr>)))"

text \<open>
  \<^verbatim>\<open>init_circuit_breakers\<close> of \<^verbatim>\<open>app/extensions.py\<close>: three new breaker objects, closed,
  with the \<^verbatim>\<open>fail_max\<close> the source gives them. The globals of the two providers are
  rebound to the first two; the third is \<^verbatim>\<open>database_breaker\<close>, which none of the
  functions here reads. A handle constructed earlier keeps the reference it took.
\<close>

definition new_breaker :: "nat \<Rightarrow> CircuitBreaker" where
  "new_breaker m = \<lparr>current_state = STATE_CLOSED, fail_counter = 0, fail_max = m\<rparr>"

definition init_circuit_breakers :: "world \<Rightarrow> world" where
  "init_circuit_breakers w =
     (let a = next_id w in
      w\<lparr>breaker_objects := (breaker_objects w)
           (a := new_breaker 5, Suc a := new_breaker 5, Suc (Suc a) := new_breaker 3),
        breakers := (\<lambda>p. Some (case p of OPENAI \<Rightarrow> a | ANTHROPIC \<Rightarrow> Suc a)),
        next_id := Suc (Suc (Suc a))\<rparr>)"

section \<open>\<^verbatim>\<open>OpenAIClient\<close>\<close>

text \<open>\<^verbatim>\<open>__init__\<close>: \<^verbatim>\<open>base_url or "https://api.openai.com/v1"\<close>, timeout 30 from the base class.\<close>

definition OpenAIClient_init ::
  "string \<Rightarrow> string option \<Rightarrow> string \<Rightarrow> world \<Rightarrow> client \<times> world" where
  "OpenAIClient_init key url m w =
     (\<lparr>client_id = next_id w, client_class = OPENAI, api_key = key,
       base_url = or_str url ''https://api.openai.com/v1'',
       timeout = 30, client_model = m,
       circuit_breaker = breakers w OPENAI\<rparr>,
      w\<lparr>next_id := Suc (next_id w)\<rparr>)"

text \<open>
  \<^verbatim>\<open>_make_request\<close> is defined under the decorator \<^verbatim>\<open>@pybreaker.CircuitBreakerError\<close>.
  \<^verbatim>\<open>CircuitBreakerError\<close> is an exception class, so Python binds the name
  \<^verbatim>\<open>_make_request\<close> to \<^verbatim>\<open>CircuitBreakerError(<function>)\<close>, an exception instance. An
  instance attribute lookup returns that object, and calling it raises
  \<^verbatim>\<open>TypeError: 'CircuitBreakerError' object is not callable\<close> after the arguments have
  been evaluated. The decorated body (the same as the Anthropic one) never runs.
\<close>

definition OpenAIClient_make_request ::
  "client \<Rightarrow> (world \<Rightarrow> (exn + 'a) \<times> world) \<Rightarrow> world \<Rightarrow> (exn + 'a) \<times> world" where
  "OpenAIClient_make_request self request_func w =
     (Inl (Exn TypeError '''CircuitBreakerError' object is not callable''), w)"

text \<open>The success branch of \<^verbatim>\<open>generate_completion\<close>: the fields read from the response.\<close>

definition completion_response :: "openai_completion \<Rightarrow> real \<Rightarrow> exn + APIResponse" where
  "completion_response response rt =
     (case choices_text response of
        [] \<Rightarrow> Inl (Exn IndexError ''list index out of range'')
      | text # _ \<Rightarrow>
          (case completion_total_tokens response of
             None \<Rightarrow> Inl (Exn AttributeError
                       ('''NoneType' object has no attribute 'total_tokens'' @ [CHR 0x27]))
           | Some n \<Rightarrow>
               Inr \<lparr>success = True, data = Some (strip text), error = None,
                    status_code = None, response_time = Some rt,
                    provider = Some ''openai'',
                    model = Some (completion_model response), tokens_used = Some n\<rparr>))"

definition OpenAIClient_generate_completion ::
  "client \<Rightarrow> string \<Rightarrow> kwargs \<Rightarrow> world \<Rightarrow> (exn + APIResponse) \<times> world" where
  "OpenAIClient_generate_completion self prompt kw w =
     (let start_time = now w;
          (r, w') = OpenAIClient_make_request self
             (sdk_call completions_create
                (Completions_create (kwargs_get (kw_model kw) (client_model self)) prompt
                   (kwargs_get (kw_max_tokens kw) 1000)
                   (kwargs_get (kw_temperature kw) 0.7)
                   (kwargs_get (kw_top_p kw) 1.0)
                   (kwargs_get (kw_frequency_penalty kw) 0.0)
                   (kwargs_get (kw_presence_penalty kw) 0.0))) w;
          response_time = now w' - start_time
      in (except_Exception
            (bind_exn r (\<lambda>response. completion_response response response_time))
            (\<lambda>e. Inr ((BaseAPIClient_handle_error e ''openai'')
                        \<lparr>response_time := Some response_time\<rparr>)),
          w'))"

definition chat_response :: "openai_chat \<Rightarrow> real \<Rightarrow> exn + APIResponse" where
  "chat_response response rt =
     (case response of
        Stream \<Rightarrow> Inl (Exn AttributeError ('''Stream' object has no attribute 'choices'' @ [CHR 0x27]))
      | ChatCompletion choices m usage \<Rightarrow>
          (case choices of
             [] \<Rightarrow> Inl (Exn IndexError ''list index out of range'')
           | c # _ \<Rightarrow>
               (case usage of
                  None \<Rightarrow> Inl (Exn AttributeError
                            ('''NoneType' object has no attribute 'total_tokens'' @ [CHR 0x27]))
                | Some n \<Rightarrow>
                    Inr \<lparr>success = True, data = c, error = None, status_code = None,
                         response_time = Some rt, provider = Some ''openai'',
                         model = Some m, tokens_used = Some n\<rparr>)))"

definition OpenAIClient_generate_chat_completion ::
  "client \<Rightarrow> message list \<Rightarrow> kwargs \<Rightarrow> world \<Rightarrow> (exn + APIResponse) \<times> world" where
  "OpenAIClient_generate_chat_completion self messages kw w =
     (let start_time = now w;
          (r, w') = OpenAIClient_make_request self
             (sdk_call chat_completions_create
                (Chat_completions_create (kwargs_get (kw_model kw) (client_model self)) messages
                   (kwargs_get (kw_max_tokens kw) 1000)
                   (kwargs_get (kw_temperature kw) 0.7)
                   (kwargs_get (kw_top_p kw) 1.0)
                   (kwargs_get (kw_frequency_penalty kw) 0.0)
                   (kwargs_get (kw_presence_penalty kw) 0.0)
                   (kwargs_get (kw_stream kw) False))) w;
          response_time = now w' - start_time
      in (except_Exception
            (bind_exn r (\<lambda>response. chat_response response response_time))
            (\<lambda>e. Inr ((BaseAPIClient_handle_error e ''openai'')
                        \<lparr>response_time := Some response_time\<rparr>)),
          w'))"

section \<open>\<^verbatim>\<open>AnthropicClient\<close>\<close>

definition AnthropicClient_init ::
  "string \<Rightarrow> string option \<Rightarrow> string \<Rightarrow> world \<Rightarrow> client \<times> world" where
  "AnthropicClient_init key url m w =
     (\<lparr>client_id = next_id w, client_class = ANTHROPIC, api_key = key,
       base_url = or_str url ''https://api.anthropic.com'',
       timeout = 30, client_model = m,
       circuit_breaker = breakers w ANTHROPIC\<rparr>,
      w\<lparr>next_id := Suc (next_id w)\<rparr>)"

text \<open>
  \<^verbatim>\<open>_make_request\<close>: through the breaker when the handle has one, directly otherwise;
  the breaker's own error is replaced by an \<^verbatim>\<open>APIClientError\<close>.
\<close>

definition AnthropicClient_make_request ::
  "client \<Rightarrow> (world \<Rightarrow> (exn + 'a) \<times> world) \<Rightarrow> world \<Rightarrow> (exn + 'a) \<times> world" where
  "AnthropicClient_make_request self request_func w =
     (case (case circuit_breaker self of
              Some a \<Rightarrow> CircuitBreaker_call a request_func w
            | None \<Rightarrow> request_func w) of
        (Inr v, w') \<Rightarrow> (Inr v, w')
      | (Inl e, w') \<Rightarrow>
          if exn_class e = CircuitBreakerError then
            (Inl (Exn APIClientError ''Anthropic service temporarily unavailable''), w')
          else (Inl e, w'))"

text \<open>The success branch: \<^verbatim>\<open>response.content[0].text\<close> and the token counts.\<close>

definition message_response :: "anthropic_message \<Rightarrow> real \<Rightarrow> exn + APIResponse" where
  "message_response response rt =
     (case content response of
        [] \<Rightarrow> Inl (Exn IndexError ''list index out of range'')
      | ToolUseBlock # _ \<Rightarrow>
          Inl (Exn AttributeError
                 ('''ToolUseBlock' object has no attribute 'text'' @ [CHR 0x27]))
      | TextBlock text # _ \<Rightarrow>
          Inr \<lparr>success = True, data = Some text, error = None, status_code = None,
               response_time = Some rt, provider = Some ''anthropic'',
               model = Some (message_model response),
               tokens_used = Some (input_tokens response + output_tokens response)\<rparr>)"

definition AnthropicClient_generate_chat_completion ::
  "client \<Rightarrow> message list \<Rightarrow> kwargs \<Rightarrow> world \<Rightarrow> (exn + APIResponse) \<times> world" where
  "AnthropicClient_generate_chat_completion self messages kw w =
     (let start_time = now w;
          (r, w') = AnthropicClient_make_request self
             (sdk_call messages_create
                (Messages_create (kwargs_get (kw_model kw) (client_model self)) messages
                   (kwargs_get (kw_max_tokens kw) 1000)
                   (kwargs_get (kw_temperature kw) 0.7)
                   (kwargs_get (kw_top_p kw) 1.0))) w;
          response_time = now w' - start_time
      in (except_Exception
            (bind_exn r (\<lambda>response. message_response response response_time))
            (\<lambda>e. Inr ((BaseAPIClient_handle_error e ''anthropic'')
                        \<lparr>response_time := Some response_time\<rparr>)),
          w'))"

definition AnthropicClient_generate_completion ::
  "client \<Rightarrow> string \<Rightarrow> kwargs \<Rightarrow> world \<Rightarrow> (exn + APIResponse) \<times> world" where
  "AnthropicClient_generate_completion self prompt kw w =
     (let messages = [[(''role'', ''user''), (''content'', prompt)]]
      in AnthropicClient_generate_chat_completion self messages kw w)"

section \<open>Method dispatch on a handle\<close>

definition client_generate_completion ::
  "client \<Rightarrow> string \<Rightarrow> kwargs \<Rightarrow> world \<Rightarrow> (exn + APIResponse) \<times> world" where
  "client_generate_completion c prompt kw w =
     (case client_class c of
        OPENAI \<Rightarrow> OpenAIClient_generate_completion c prompt kw w
      | ANTHROPIC \<Rightarrow> AnthropicClient_generate_completion c prompt kw w)"

definition client_generate_chat_completion ::
  "client \<Rightarrow> message list \<Rightarrow> kwargs \<Rightarrow> world \<Rightarrow> (exn + APIResponse) \<times> world" where
  "client_generate_chat_completion c messages kw w =
     (case client_class c of
        OPENAI \<Rightarrow> OpenAIClient_generate_chat_completion c messages kw w
      | ANTHROPIC \<Rightarrow> AnthropicClient_generate_chat_completion c messages kw w)"

section \<open>\<^verbatim>\<open>APIClientFactory\<close>\<close>

text \<open>\<^verbatim>\<open>os.getenv(name, default)\<close>.\<close>

definition getenv_default :: "world \<Rightarrow> string \<Rightarrow> string \<Rightarrow> string" where
  "getenv_default w name d = (case environ w name of None \<Rightarrow> d | Some v \<Rightarrow> v)"

text \<open>The registry key \<^verbatim>\<open>f"openai_{hash(api_key)}"\<close> (and the same for Anthropic).\<close>

definition client_key :: "world \<Rightarrow> APIProvider \<Rightarrow> string \<Rightarrow> string" where
  "client_key w p key = provider_value p @ ''_'' @ str_int (sint (str_hash w key))"

text \<open>
  \<^verbatim>\<open>get_client\<close>. The two branches differ in the names of the environment variables,
  the default model and the class constructed. The final \<^verbatim>\<open>else\<close> (unsupported provider)
  needs a value outside the enumeration and has no counterpart here.
\<close>

definition APIClientFactory_get_client ::
  "APIProvider \<Rightarrow> kwargs \<Rightarrow> world \<Rightarrow> (exn + client) \<times> world" where
  "APIClientFactory_get_client p kw w =
     (case p of
        OPENAI \<Rightarrow>
          (let key = py_or (kw_api_key kw) (environ w ''OPENAI_API_KEY'') in
           if \<not> truthy key then
             (Inl (Exn APIClientError ''OpenAI API key not provided''), w)
           else
             (let k = client_key w OPENAI (or_str key []) in
              case clients w k of
                Some c \<Rightarrow> (Inr c, w)
              | None \<Rightarrow>
                  (let (c, w') = OpenAIClient_init (or_str key [])
                         (py_or (kw_base_url kw) (environ w ''OPENAI_API_BASE_URL''))
                         (or_str (kw_model kw) (getenv_default w ''OPENAI_MODEL'' ''gpt-4'')) w
                   in (Inr c, w'\<lparr>clients := (clients w')(k \<mapsto> c)\<rparr>))))
      | ANTHROPIC \<Rightarrow>
          (let key = py_or (kw_api_key kw) (environ w ''ANTHROPIC_API_KEY'') in
           if \<not> truthy key then
             (Inl (Exn APIClientError ''Anthropic API key not provided''), w)
           else
             (let k = client_key w ANTHROPIC (or_str key []) in
              case clients w k of
                Some c \<Rightarrow> (Inr c, w)
              | None \<Rightarrow>
                  (let (c, w') = AnthropicClient_init (or_str key [])
                         (py_or (kw_base_url kw) (environ w ''ANTHROPIC_API_BASE_URL''))
                         (or_str (kw_model kw)
                            (getenv_default w ''ANTHROPIC_MODEL'' ''claude-3-sonnet-20240229'')) w
                   in (Inr c, w'\<lparr>clients := (clients w')(k \<mapsto> c)\<rparr>)))))"

definition APIClientFactory_clear_clients :: "world \<Rightarrow> world" where
  "APIClientFactory_clear_clients w = w\<lparr>clients := Map.empty\<rparr>"

section \<open>\<^verbatim>\<open>UnifiedAPIClient\<close>\<close>

record UnifiedAPIClient =
  primary_provider :: APIProvider
  fallback_providers :: "APIProvider list"
  request_count :: int

text \<open>
  The body of the \<^verbatim>\<open>try\<close> of one iteration up to the response: obtain the handle, invoke
  the operation on it with the same keyword arguments.
\<close>

definition attempt ::
  "(client \<Rightarrow> kwargs \<Rightarrow> world \<Rightarrow> (exn + APIResponse) \<times> world) \<Rightarrow>
   APIProvider \<Rightarrow> kwargs \<Rightarrow> world \<Rightarrow> (exn + APIResponse) \<times> world" where
  "attempt operation p kw w =
     (case APIClientFactory_get_client p kw w of
        (Inl e, w') \<Rightarrow> (Inl e, w')
      | (Inr c, w') \<Rightarrow> operation c kw w')"

text \<open>
  The loop of \<^verbatim>\<open>generate_completion\<close> and of \<^verbatim>\<open>generate_chat_completion\<close>, which the
  source writes twice with the operation as the only difference: a successful response
  increments the counter and returns; a failed response and an exception
  (\<^verbatim>\<open>except Exception: continue\<close>) both go on to the next provider; the exhausted
  sequence returns the aggregate failure.
\<close>

fun fallback_loop ::
  "(client \<Rightarrow> kwargs \<Rightarrow> world \<Rightarrow> (exn + APIResponse) \<times> world) \<Rightarrow> APIProvider list \<Rightarrow>
   UnifiedAPIClient \<Rightarrow> kwargs \<Rightarrow> world \<Rightarrow> (exn + APIResponse) \<times> UnifiedAPIClient \<times> world" where
  "fallback_loop operation [] self kw w =
     (Inr ((APIResponse_init False)
             \<lparr>error := Some ''All AI providers failed'', provider := Some ''unified''\<rparr>),
      self, w)"
| "fallback_loop operation (p # ps) self kw w =
     (case attempt operation p kw w of
        (Inr response, w') \<Rightarrow>
          if success response then
            (Inr response, self\<lparr>request_count := request_count self + 1\<rparr>, w')
          else fallback_loop operation ps self kw w'
      | (Inl e, w') \<Rightarrow> fallback_loop operation ps self kw w')"

definition UnifiedAPIClient_generate_completion ::
  "UnifiedAPIClient \<Rightarrow> string \<Rightarrow> kwargs \<Rightarrow> world \<Rightarrow>
   (exn + APIResponse) \<times> UnifiedAPIClient \<times> world" where
  "UnifiedAPIClient_generate_completion self prompt kw w =
     (let providers = [primary_provider self] @ fallback_providers self
      in fallback_loop (\<lambda>c. client_generate_completion c prompt) providers self kw w)"

definition UnifiedAPIClient_generate_chat_completion ::
  "UnifiedAPIClient \<Rightarrow> message list \<Rightarrow> kwargs \<Rightarrow> world \<Rightarrow>
   (exn + APIResponse) \<times> UnifiedAPIClient \<times> world" where
  "UnifiedAPIClient_generate_chat_completion self messages kw w =
     (let providers = [primary_provider self] @ fallback_providers self
      in fallback_loop (\<lambda>c. client_generate_chat_completion c messages) providers self kw w)"

section \<open>\<^verbatim>\<open>CacheManager\<close> of \<^verbatim>\<open>app/database.py\<close>\<close>











section \<open>Notions used to state the properties\<close>

text \<open>
  \<open>all_fail operation ps kw w\<close> is \<open>Some w'\<close> when the attempts on the providers \<open>ps\<close>,
  made one after the other from the world \<open>w\<close>, all fail (a response that is not a
  success, or an exception) and leave the world \<open>w'\<close>; it is \<open>None\<close> when one succeeds.
\<close>

fun all_fail ::
  "(client \<Rightarrow> kwargs \<Rightarrow> world \<Rightarrow> (exn + APIResponse) \<times> world) \<Rightarrow> APIProvider list \<Rightarrow>
   kwargs \<Rightarrow> world \<Rightarrow> world option" where
  "all_fail operation [] kw w = Some w"
| "all_fail operation (p # ps) kw w =
     (case attempt operation p kw w of
        (Inr response, w') \<Rightarrow>
          if success response then None else all_fail operation ps kw w'
      | (Inl e, w') \<Rightarrow> all_fail operation ps kw w')"

text \<open>
  The credential \<^verbatim>\<open>get_client\<close> resolves: the explicit argument first, then the
  environment variable of the provider.
\<close>

definition credential :: "APIProvider \<Rightarrow> kwargs \<Rightarrow> world \<Rightarrow> string option" where
  "credential p kw w =
     py_or (kw_api_key kw)
       (environ w (case p of OPENAI \<Rightarrow> ''OPENAI_API_KEY''
                   | ANTHROPIC \<Rightarrow> ''ANTHROPIC_API_KEY''))"

text \<open>
  The registry as \<^verbatim>\<open>get_client\<close> builds it: every cached handle was allocated before,
  and two keys hold two objects.
\<close>

definition registry_ok :: "world \<Rightarrow> bool" where
  "registry_ok w =
     ((\<forall>k c. clients w k = Some c \<longrightarrow> client_id c < next_id w)
      \<and> (\<forall>k k' c c'. clients w k = Some c \<and> clients w k' = Some c' \<and> k \<noteq> k'
            \<longrightarrow> client_id c \<noteq> client_id c'))"

text \<open>The invariant of \<^verbatim>\<open>APIResponse\<close> the specification states.\<close>

definition exactly_one :: "APIResponse \<Rightarrow> bool" where
  "exactly_one r =
     ((data r \<noteq> None) = success r \<and> (error r \<noteq> None) = (\<not> success r))"

section \<open>Sample inputs\<close>

text \<open>Concrete values at which the properties below are instantiated.\<close>

definition no_kwargs :: kwargs where
  "no_kwargs =
     \<lparr>kw_api_key = None, kw_base_url = None, kw_model = None, kw_max_tokens = None,
      kw_temperature = None, kw_top_p = None, kw_frequency_penalty = None,
      kw_presence_penalty = None, kw_stream = None\<rparr>"

definition hello_message :: anthropic_message where
  "hello_message =
     \<lparr>content = [TextBlock ''hello''], message_model = ''claude-3-sonnet-20240229'',
      input_tokens = 3, output_tokens = 2\<rparr>"

text \<open>
  Both keys in the environment, an empty registry, no breaker installed, a hash that
  tells strings of different lengths apart, an Anthropic service that answers "hello" and
  OpenAI endpoints that would answer with a connection error.
\<close>

definition sample_world :: world where
  "sample_world =
     \<lparr>environ = [''OPENAI_API_KEY'' \<mapsto> ''sk-openai'', ''ANTHROPIC_API_KEY'' \<mapsto> ''sk-anthropic''],
      clients = Map.empty, next_id = 0, breakers = (\<lambda>p. None),
      breaker_objects = (\<lambda>a. new_breaker 5),
      str_hash = (\<lambda>s. of_nat (length s)), now = 0,
      completions_create = (\<lambda>n c. Inl (Exn ProviderSDKError ''Connection error.'')),
      chat_completions_create = (\<lambda>n c. Inl (Exn ProviderSDKError ''Connection error.'')),
      messages_create = (\<lambda>n c. Inr hello_message),
      latency = (\<lambda>n. 1 / 2), network_calls = []\<rparr>"

text \<open>The same world without any key, and without the OpenAI key only.\<close>

definition no_key_world :: world where
  "no_key_world = sample_world\<lparr>environ := Map.empty\<rparr>"

definition anthropic_only_world :: world where
  "anthropic_only_world = sample_world\<lparr>environ := [''ANTHROPIC_API_KEY'' \<mapsto> ''sk-anthropic'']\<rparr>"

text \<open>
  The same world after \<^verbatim>\<open>init_circuit_breakers\<close> (the breaker objects 0, 1 and 2), with
  the breakers open.
\<close>

definition open_breaker :: CircuitBreaker where
  "open_breaker = \<lparr>current_state = STATE_OPEN, fail_counter = 5, fail_max = 5\<rparr>"

definition breakers_open_world :: world where
  "breakers_open_world =
     (init_circuit_breakers sample_world)\<lparr>breaker_objects := (\<lambda>a. open_breaker)\<rparr>"

text \<open>
  The handles \<^verbatim>\<open>get_client\<close> constructs in that world, OpenAI first: each holds the
  breaker of its provider.
\<close>

definition openai_handle :: client where
  "openai_handle =
     \<lparr>client_id = 3, client_class = OPENAI, api_key = ''sk-openai'',
      base_url = ''https://api.openai.com/v1'', timeout = 30, client_model = ''gpt-4'',
      circuit_breaker = Some 0\<rparr>"

definition anthropic_handle :: client where
  "anthropic_handle =
     \<lparr>client_id = 4, client_class = ANTHROPIC, api_key = ''sk-anthropic'',
      base_url = ''https://api.anthropic.com'', timeout = 30,
      client_model = ''claude-3-sonnet-20240229'', circuit_breaker = Some 1\<rparr>"

definition openai_then_anthropic :: UnifiedAPIClient where
  "openai_then_anthropic =
     \<lparr>primary_provider = OPENAI, fallback_providers = [ANTHROPIC, OPENAI],
      request_count = 0\<rparr>"






section \<open>Properties of the classifier\<close>

lemma str_in_sublist: "str_in sub s = sublist sub s"
  by (induction s) (auto simp: sublist_Cons_right)

lemma contains_ci_lower:
  assumes "lower kw = kw"
  shows "contains_ci kw msg = str_in kw (lower msg)"
proof
  assume "contains_ci kw msg"
  then obtain u where u: "sublist u msg" "lower u = lower kw"
    by (auto simp: contains_ci_def)
  from u(1) have "sublist (map to_lower u) (map to_lower msg)"
    by (rule map_mono_sublist)
  with u(2) assms show "str_in kw (lower msg)"
    by (simp add: str_in_sublist lower_def)
next
  assume "str_in kw (lower msg)"
  then have "sublist kw (map to_lower msg)"
    by (simp add: str_in_sublist lower_def)
  then obtain u where "sublist u msg" "kw = map to_lower u"
    using sublist_map_rightE by blast
  with assms show "contains_ci kw msg"
    by (auto simp: contains_ci_def lower_def)
qed

lemma lower_keywords:
  "lower ''rate limit'' = ''rate limit''"
  "lower ''authentication'' = ''authentication''"
  "lower ''unauthorized'' = ''unauthorized''"
  "lower ''quota'' = ''quota''"
  "lower ''billing'' = ''billing''"
  by (simp_all add: lower_def to_lower_def)

lemma handle_error_classify:
  "BaseAPIClient_handle_error e prov =
     (APIResponse_init False)\<lparr>error := Some (error_text (spec_classify (str_of e))),
                               provider := Some prov\<rparr>"
  by (simp add: BaseAPIClient_handle_error_def spec_classify_def Let_def
        contains_ci_lower lower_keywords)

text \<open>
  C4. The failure classification is a function of the message of the underlying error
  alone: a case-insensitive substring match, first match winning, in the order
  "rate limit", then "authentication" or "unauthorized", then "quota" or "billing", then
  the catch-all that keeps the message. The message "Rate limit exceeded for requests"
  is classified as rate limited and not as the catch-all.
\<close>

theorem C4_classification:
  "BaseAPIClient_handle_error e prov =
     \<lparr>success = False, data = None,
      error = Some (error_text (spec_classify (str_of e))),
      status_code = None, response_time = None, provider = Some prov,
      model = None, tokens_used = None\<rparr>
   \<and> error (BaseAPIClient_handle_error (Exn c ''Rate limit exceeded for requests'') prov)
       = Some (error_text RateLimited)
   \<and> error (BaseAPIClient_handle_error (Exn c ''Rate limit exceeded for requests'') prov)
       \<noteq> Some (error_text (ProviderError ''Rate limit exceeded for requests''))"
proof -
  have rl: "str_in ''rate limit'' (lower ''Rate limit exceeded for requests'')"
    by (simp add: lower_def to_lower_def)
  have general: "BaseAPIClient_handle_error e prov =
     \<lparr>success = False, data = None,
      error = Some (error_text (spec_classify (str_of e))),
      status_code = None, response_time = None, provider = Some prov,
      model = None, tokens_used = None\<rparr>"
    by (simp add: handle_error_classify APIResponse_init_def)
  have concrete:
    "error (BaseAPIClient_handle_error (Exn c ''Rate limit exceeded for requests'') prov)
       = Some ''Rate limit exceeded''"
    using rl by (simp add: BaseAPIClient_handle_error_def Let_def)
  from general concrete show ?thesis
    by simp
qed

section \<open>Properties of the adapters\<close>

lemma handle_error_fields:
  "success (BaseAPIClient_handle_error e p) = False"
  "data (BaseAPIClient_handle_error e p) = None"
  "error (BaseAPIClient_handle_error e p) \<noteq> None"
  "provider (BaseAPIClient_handle_error e p) = Some p"
  by (simp_all add: handle_error_classify APIResponse_init_def)

lemma exactly_one_handle_error:
  "exactly_one ((BaseAPIClient_handle_error e p)\<lparr>response_time := t\<rparr>)"
  by (simp add: exactly_one_def handle_error_fields)

lemma not_callable_error:
  "BaseAPIClient_handle_error (Exn TypeError '''CircuitBreakerError' object is not callable'') p =
     (APIResponse_init False)
       \<lparr>error := Some ''API error: 'CircuitBreakerError' object is not callable'',
        provider := Some p\<rparr>"
  by (simp add: BaseAPIClient_handle_error_def Let_def lower_def to_lower_def)

lemma unavailable_error:
  "BaseAPIClient_handle_error (Exn APIClientError ''Anthropic service temporarily unavailable'') p =
     (APIResponse_init False)
       \<lparr>error := Some ''API error: Anthropic service temporarily unavailable'',
        provider := Some p\<rparr>"
  by (simp add: BaseAPIClient_handle_error_def Let_def lower_def to_lower_def)

lemma OpenAIClient_generate_completion_eq:
  "OpenAIClient_generate_completion self prompt kw w =
     (Inr ((APIResponse_init False)
             \<lparr>error := Some ''API error: 'CircuitBreakerError' object is not callable'',
              provider := Some ''openai'', response_time := Some 0\<rparr>), w)"
  by (simp add: OpenAIClient_generate_completion_def OpenAIClient_make_request_def
        not_callable_error)

lemma OpenAIClient_generate_chat_completion_eq:
  "OpenAIClient_generate_chat_completion self messages kw w =
     (Inr ((APIResponse_init False)
             \<lparr>error := Some ''API error: 'CircuitBreakerError' object is not callable'',
              provider := Some ''openai'', response_time := Some 0\<rparr>), w)"
  by (simp add: OpenAIClient_generate_chat_completion_def OpenAIClient_make_request_def
        not_callable_error)

lemma message_response_ok:
  "message_response response rt = Inr r \<Longrightarrow> success r \<and> exactly_one r"
  by (auto simp: message_response_def exactly_one_def
           split: list.splits content_block.splits)

lemma guarded_result:
  assumes "\<And>v r. f v = Inr r \<Longrightarrow> exactly_one r"
  shows "\<exists>r. except_Exception (bind_exn x f)
               (\<lambda>e. Inr ((BaseAPIClient_handle_error e p)\<lparr>response_time := t\<rparr>)) = Inr r
             \<and> exactly_one r"
proof (cases x)
  case (Inl e)
  then show ?thesis by (simp add: exactly_one_handle_error)
next
  case (Inr v)
  then show ?thesis
    using assms by (cases "f v") (auto simp: exactly_one_handle_error)
qed

lemma AnthropicClient_generate_chat_completion_result:
  "\<exists>r. fst (AnthropicClient_generate_chat_completion self messages kw w) = Inr r
       \<and> exactly_one r"
  unfolding AnthropicClient_generate_chat_completion_def Let_def
  by (simp add: split_beta guarded_result message_response_ok)

lemma breaker_open_rejects:
  assumes "current_state (breaker_objects w a) = STATE_OPEN"
  shows "\<exists>m. CircuitBreaker_call a request_func w = (Inl (Exn CircuitBreakerError m), w)"
  using assms by (simp add: CircuitBreaker_call_def Let_def)

lemma Anthropic_make_request_open:
  assumes "circuit_breaker self = Some a" "current_state (breaker_objects w a) = STATE_OPEN"
  shows "AnthropicClient_make_request self request_func w =
           (Inl (Exn APIClientError ''Anthropic service temporarily unavailable''), w)"
  using assms by (simp add: AnthropicClient_make_request_def CircuitBreaker_call_def Let_def)

lemma Anthropic_chat_breaker_open:
  assumes "circuit_breaker self = Some a" "current_state (breaker_objects w a) = STATE_OPEN"
  shows "AnthropicClient_generate_chat_completion self messages kw w =
     (Inr ((APIResponse_init False)
             \<lparr>error := Some ''API error: Anthropic service temporarily unavailable'',
              provider := Some ''anthropic'', response_time := Some 0\<rparr>), w)"
  using assms
  by (simp add: AnthropicClient_generate_chat_completion_def Anthropic_make_request_open
        unavailable_error)

text \<open>
  A handle keeps the breaker it took at construction: running \<^verbatim>\<open>init_circuit_breakers\<close>
  again rebinds the globals to new objects and leaves the objects allocated before as they
  were, so a handle whose breaker was open is still rejected, while a handle constructed
  afterwards holds the new, closed breaker of its provider.
\<close>

lemma init_circuit_breakers_keeps:
  assumes "a < next_id w"
  shows "breaker_objects (init_circuit_breakers w) a = breaker_objects w a"
  using assms by (simp add: init_circuit_breakers_def Let_def)

lemma handle_keeps_breaker:
  assumes "circuit_breaker self = Some a" "a < next_id w"
    and "current_state (breaker_objects w a) = STATE_OPEN"
  shows "AnthropicClient_make_request self request_func (init_circuit_breakers w) =
           (Inl (Exn APIClientError ''Anthropic service temporarily unavailable''),
            init_circuit_breakers w)"
  using assms
  by (intro Anthropic_make_request_open [of self a])
     (simp_all add: init_circuit_breakers_keeps)

lemma new_handle_new_breaker:
  "\<exists>a. circuit_breaker (fst (AnthropicClient_init key url m (init_circuit_breakers w))) = Some a
       \<and> next_id w \<le> a
       \<and> current_state (breaker_objects (init_circuit_breakers w) a) = STATE_CLOSED"
  by (simp add: AnthropicClient_init_def init_circuit_breakers_def new_breaker_def Let_def)

section \<open>Properties of the fallback loop\<close>

lemma fallback_loop_first_success:
  assumes "all_fail operation pre kw w = Some w1"
    and "attempt operation p kw w1 = (Inr r, w2)" and "success r"
  shows "fallback_loop operation (pre @ p # post) self kw w =
           (Inr r, self\<lparr>request_count := request_count self + 1\<rparr>, w2)"
  using assms
  by (induction pre arbitrary: w) (auto split: prod.splits sum.splits if_splits)

lemma fallback_loop_all_fail:
  assumes "all_fail operation ps kw w = Some w'"
  shows "fallback_loop operation ps self kw w =
           (Inr ((APIResponse_init False)
                   \<lparr>error := Some ''All AI providers failed'', provider := Some ''unified''\<rparr>),
            self, w')"
  using assms
  by (induction ps arbitrary: w) (auto split: prod.splits sum.splits if_splits)

lemma attempt_result:
  assumes "attempt operation p kw w = (Inr r, w')"
  shows "\<exists>c w1. operation c kw w1 = (Inr r, w')"
  using assms by (auto simp: attempt_def split: prod.splits sum.splits)

lemma fallback_loop_result:
  assumes "\<And>c kw w r w'. operation c kw w = (Inr r, w') \<Longrightarrow> exactly_one r"
  shows "\<exists>r. fst (fallback_loop operation ps self kw w) = Inr r \<and> exactly_one r"
proof (induction ps arbitrary: w)
  case Nil
  show ?case by (simp add: exactly_one_def APIResponse_init_def)
next
  case (Cons p ps)
  obtain x w' where a: "attempt operation p kw w = (x, w')"
    by (cases "attempt operation p kw w")
  show ?case
  proof (cases x)
    case (Inl e)
    with a Cons.IH [of w'] show ?thesis by simp
  next
    case (Inr r)
    with a assms have "exactly_one r"
      using attempt_result by blast
    with a Inr Cons.IH [of w'] show ?thesis by simp
  qed
qed

section \<open>Properties of the registry\<close>

subsection \<open>The registry key\<close>








subsection \<open>\<^verbatim>\<open>get_client\<close>\<close>

lemma get_client_no_credential:
  assumes "\<not> truthy (credential p kw w)"
  shows "APIClientFactory_get_client p kw w =
           (Inl (Exn APIClientError
                  (case p of OPENAI \<Rightarrow> ''OpenAI API key not provided''
                   | ANTHROPIC \<Rightarrow> ''Anthropic API key not provided'')), w)"
  using assms
  by (cases p) (simp_all add: APIClientFactory_get_client_def credential_def)








lemma registry_ok_clear: "registry_ok (APIClientFactory_clear_clients w)"
  by (simp add: registry_ok_def APIClientFactory_clear_clients_def)

section \<open>Results of the adapters and of the orchestrator\<close>

lemma exactly_one_failure:
  "exactly_one ((APIResponse_init False)
     \<lparr>error := Some m, provider := Some p, response_time := Some t\<rparr>)"
  by (simp add: exactly_one_def APIResponse_init_def)

lemma OpenAIClient_results:
  "\<exists>r. fst (OpenAIClient_generate_completion self prompt kw w) = Inr r \<and> exactly_one r"
  "\<exists>r. fst (OpenAIClient_generate_chat_completion self messages kw w) = Inr r \<and> exactly_one r"
  by (simp_all add: OpenAIClient_generate_completion_eq
        OpenAIClient_generate_chat_completion_eq exactly_one_failure)

lemma AnthropicClient_generate_completion_result:
  "\<exists>r. fst (AnthropicClient_generate_completion self prompt kw w) = Inr r \<and> exactly_one r"
  unfolding AnthropicClient_generate_completion_def Let_def
  by (rule AnthropicClient_generate_chat_completion_result)

lemma client_generate_completion_result:
  "\<exists>r. fst (client_generate_completion c prompt kw w) = Inr r \<and> exactly_one r"
proof (cases "client_class c")
  case OPENAI
  then show ?thesis
    using OpenAIClient_results(1) [of c prompt kw w]
    by (simp add: client_generate_completion_def)
next
  case ANTHROPIC
  then show ?thesis
    using AnthropicClient_generate_completion_result [of c prompt kw w]
    by (simp add: client_generate_completion_def)
qed

lemma client_generate_chat_completion_result:
  "\<exists>r. fst (client_generate_chat_completion c messages kw w) = Inr r \<and> exactly_one r"
proof (cases "client_class c")
  case OPENAI
  then show ?thesis
    using OpenAIClient_results(2) [of c messages kw w]
    by (simp add: client_generate_chat_completion_def)
next
  case ANTHROPIC
  then show ?thesis
    using AnthropicClient_generate_chat_completion_result [of c messages kw w]
    by (simp add: client_generate_chat_completion_def)
qed

lemma client_op_exactly_one:
  "client_generate_completion c prompt kw w = (Inr r, w') \<Longrightarrow> exactly_one r"
  "client_generate_chat_completion c messages kw w = (Inr r, w') \<Longrightarrow> exactly_one r"
  using client_generate_completion_result [of c prompt kw w]
    client_generate_chat_completion_result [of c messages kw w]
  by auto

lemma UnifiedAPIClient_results:
  "\<exists>r. fst (UnifiedAPIClient_generate_completion u prompt kw w) = Inr r \<and> exactly_one r"
  "\<exists>r. fst (UnifiedAPIClient_generate_chat_completion u messages kw w) = Inr r
       \<and> exactly_one r"
proof -
  show "\<exists>r. fst (UnifiedAPIClient_generate_completion u prompt kw w) = Inr r \<and> exactly_one r"
    unfolding UnifiedAPIClient_generate_completion_def Let_def
    by (rule fallback_loop_result) (rule client_op_exactly_one(1))
  show "\<exists>r. fst (UnifiedAPIClient_generate_chat_completion u messages kw w) = Inr r
          \<and> exactly_one r"
    unfolding UnifiedAPIClient_generate_chat_completion_def Let_def
    by (rule fallback_loop_result) (rule client_op_exactly_one(2))
qed

text \<open>
  C5. Whatever the underlying provider call does (the world fixes its answer: a response
  of any shape or any exception), the adapter operations \<^verbatim>\<open>generate_completion\<close> and
  \<^verbatim>\<open>generate_chat_completion\<close> of both clients return an \<^verbatim>\<open>APIResponse\<close> and raise
  nothing, and so do the two operations of the orchestrator.
\<close>

theorem C5_no_exception:
  "(\<exists>r. fst (OpenAIClient_generate_completion self prompt kw w) = Inr r)
   \<and> (\<exists>r. fst (OpenAIClient_generate_chat_completion self messages kw w) = Inr r)
   \<and> (\<exists>r. fst (AnthropicClient_generate_completion self prompt kw w) = Inr r)
   \<and> (\<exists>r. fst (AnthropicClient_generate_chat_completion self messages kw w) = Inr r)
   \<and> (\<exists>r. fst (UnifiedAPIClient_generate_completion u prompt kw w) = Inr r)
   \<and> (\<exists>r. fst (UnifiedAPIClient_generate_chat_completion u messages kw w) = Inr r)"
  using OpenAIClient_results(1) [of self prompt kw w]
    OpenAIClient_results(2) [of self messages kw w]
    AnthropicClient_generate_completion_result [of self prompt kw w]
    AnthropicClient_generate_chat_completion_result [of self messages kw w]
    UnifiedAPIClient_results(1) [of u prompt kw w]
    UnifiedAPIClient_results(2) [of u messages kw w]
  by blast

text \<open>
  C8. Every \<^verbatim>\<open>APIResponse\<close> returned by an adapter operation or by the orchestrator
  has its payload present exactly when it is a success and its error present exactly when
  it is not.
\<close>

theorem C8_exactly_one:
  "(\<exists>r. fst (OpenAIClient_generate_completion self prompt kw w) = Inr r \<and> exactly_one r)
   \<and> (\<exists>r. fst (OpenAIClient_generate_chat_completion self messages kw w) = Inr r
          \<and> exactly_one r)
   \<and> (\<exists>r. fst (AnthropicClient_generate_completion self prompt kw w) = Inr r \<and> exactly_one r)
   \<and> (\<exists>r. fst (AnthropicClient_generate_chat_completion self messages kw w) = Inr r
          \<and> exactly_one r)
   \<and> (\<exists>r. fst (UnifiedAPIClient_generate_completion u prompt kw w) = Inr r \<and> exactly_one r)
   \<and> (\<exists>r. fst (UnifiedAPIClient_generate_chat_completion u messages kw w) = Inr r
          \<and> exactly_one r)"
  by (intro conjI OpenAIClient_results AnthropicClient_generate_completion_result
        AnthropicClient_generate_chat_completion_result UnifiedAPIClient_results)

text \<open>
  C10. For every prompt and all options, the Anthropic \<^verbatim>\<open>generate_completion\<close> returns
  what its \<^verbatim>\<open>generate_chat_completion\<close> returns on the single message with role "user"
  and the prompt as content, and leaves the same world.
\<close>

theorem C10_completion_as_chat:
  "AnthropicClient_generate_completion self prompt kw w =
     AnthropicClient_generate_chat_completion self
       [[(''role'', ''user''), (''content'', prompt)]] kw w"
  by (simp add: AnthropicClient_generate_completion_def)

section \<open>The orchestrator\<close>

lemmas sample_defs = sample_world_def no_key_world_def anthropic_only_world_def
  breakers_open_world_def open_breaker_def no_kwargs_def hello_message_def
  openai_then_anthropic_def openai_handle_def anthropic_handle_def
  init_circuit_breakers_def new_breaker_def

lemmas adapter_defs = attempt_def APIClientFactory_get_client_def py_or_def
  OpenAIClient_init_def AnthropicClient_init_def getenv_default_def
  client_generate_completion_def client_generate_chat_completion_def
  AnthropicClient_generate_completion_def AnthropicClient_generate_chat_completion_def
  AnthropicClient_make_request_def CircuitBreaker_call_def sdk_call_def
  message_response_def APIResponse_init_def Let_def

lemma fallback_loop_skip:
  assumes "\<not> truthy (credential p kw w)"
  shows "fallback_loop operation (p # ps) self kw w = fallback_loop operation ps self kw w"
  using assms by (simp add: attempt_def get_client_no_credential)

lemma all_fail_skip:
  assumes "\<not> truthy (credential p kw w)"
  shows "all_fail operation (p # ps) kw w = all_fail operation ps kw w"
  using assms by (simp add: attempt_def get_client_no_credential)

lemma no_key_credential: "\<not> truthy (credential p no_kwargs no_key_world)"
  by (simp add: credential_def sample_defs py_or_def)

lemma anthropic_only_credential: "\<not> truthy (credential OPENAI no_kwargs anthropic_only_world)"
  by (simp add: credential_def sample_defs py_or_def)

text \<open>
  In the sample world the OpenAI attempt fails (for either operation) and only registers
  the handle: no network call is made.
\<close>

lemma sample_openai_fails:
  "all_fail (\<lambda>c. client_generate_completion c prompt) [OPENAI] no_kwargs sample_world =
     Some (snd (APIClientFactory_get_client OPENAI no_kwargs sample_world))"
  "all_fail (\<lambda>c. client_generate_chat_completion c messages) [OPENAI] no_kwargs sample_world =
     Some (snd (APIClientFactory_get_client OPENAI no_kwargs sample_world))"
  by (simp_all add: attempt_def APIClientFactory_get_client_def py_or_def
        OpenAIClient_init_def getenv_default_def sample_defs Let_def
        client_generate_completion_def client_generate_chat_completion_def
        OpenAIClient_generate_completion_eq OpenAIClient_generate_chat_completion_eq
        APIResponse_init_def)

text \<open>The Anthropic attempt that follows succeeds with one network call.\<close>

lemma sample_anthropic_succeeds:
  "attempt (\<lambda>c. client_generate_completion c ''hi'') ANTHROPIC no_kwargs
     (snd (APIClientFactory_get_client OPENAI no_kwargs sample_world)) =
   (Inr \<lparr>success = True, data = Some ''hello'', error = None, status_code = None,
         response_time = Some (1 / 2), provider = Some ''anthropic'',
         model = Some ''claude-3-sonnet-20240229'', tokens_used = Some 5\<rparr>,
    snd (attempt (\<lambda>c. client_generate_completion c ''hi'') ANTHROPIC no_kwargs
          (snd (APIClientFactory_get_client OPENAI no_kwargs sample_world))))"
  "attempt (\<lambda>c. client_generate_chat_completion c [[(''role'', ''user''), (''content'', ''hi'')]])
     ANTHROPIC no_kwargs (snd (APIClientFactory_get_client OPENAI no_kwargs sample_world)) =
   (Inr \<lparr>success = True, data = Some ''hello'', error = None, status_code = None,
         response_time = Some (1 / 2), provider = Some ''anthropic'',
         model = Some ''claude-3-sonnet-20240229'', tokens_used = Some 5\<rparr>,
    snd (attempt (\<lambda>c. client_generate_completion c ''hi'') ANTHROPIC no_kwargs
          (snd (APIClientFactory_get_client OPENAI no_kwargs sample_world))))"
  "network_calls
     (snd (attempt (\<lambda>c. client_generate_completion c ''hi'') ANTHROPIC no_kwargs
            (snd (APIClientFactory_get_client OPENAI no_kwargs sample_world)))) =
   [Messages_create ''claude-3-sonnet-20240229'' [[(''role'', ''user''), (''content'', ''hi'')]]
      1000 0.7 1.0]"
  by (simp_all add: adapter_defs sample_defs client_key_def)

text \<open>Without the OpenAI key, the Anthropic attempt from the initial world.\<close>

lemma anthropic_only_succeeds:
  "fst (attempt (\<lambda>c. client_generate_completion c ''hi'') ANTHROPIC no_kwargs
          anthropic_only_world) =
   Inr \<lparr>success = True, data = Some ''hello'', error = None, status_code = None,
        response_time = Some (1 / 2), provider = Some ''anthropic'',
        model = Some ''claude-3-sonnet-20240229'', tokens_used = Some 5\<rparr>"
  "network_calls
     (snd (attempt (\<lambda>c. client_generate_completion c ''hi'') ANTHROPIC no_kwargs
            anthropic_only_world)) =
   [Messages_create ''claude-3-sonnet-20240229'' [[(''role'', ''user''), (''content'', ''hi'')]]
      1000 0.7 1.0]"
  by (simp_all add: adapter_defs sample_defs)

text \<open>
  Claim C1. Let the attempt sequence \<^verbatim>\<open>[primary] + fallbacks\<close> be \<open>pre @ p # post\<close>. If
  the attempts on the providers of \<open>pre\<close> all fail (a failed response or an exception)
  and the attempt on \<open>p\<close> returns a successful response \<open>r\<close>, then
  \<^verbatim>\<open>generate_completion\<close> and \<^verbatim>\<open>generate_chat_completion\<close> return \<open>r\<close>, the
  request counter is the old one plus one, and the world is the one the attempt on \<open>p\<close>
  left: nothing of \<open>post\<close> was invoked.
\<close>

theorem C1_first_success:
  assumes "[primary_provider self] @ fallback_providers self = pre @ p # post"
  shows
    "(all_fail (\<lambda>c. client_generate_completion c prompt) pre kw w = Some w1 \<longrightarrow>
      attempt (\<lambda>c. client_generate_completion c prompt) p kw w1 = (Inr r, w2) \<longrightarrow>
      success r \<longrightarrow>
      UnifiedAPIClient_generate_completion self prompt kw w =
        (Inr r, self\<lparr>request_count := request_count self + 1\<rparr>, w2))
     \<and> (all_fail (\<lambda>c. client_generate_chat_completion c messages) pre kw w = Some w1' \<longrightarrow>
      attempt (\<lambda>c. client_generate_chat_completion c messages) p kw w1' = (Inr r', w2') \<longrightarrow>
      success r' \<longrightarrow>
      UnifiedAPIClient_generate_chat_completion self messages kw w =
        (Inr r', self\<lparr>request_count := request_count self + 1\<rparr>, w2'))"
  unfolding UnifiedAPIClient_generate_completion_def
    UnifiedAPIClient_generate_chat_completion_def Let_def assms
  by (intro conjI impI fallback_loop_first_success)

theorem C1_first_success_witness:
  "fst (UnifiedAPIClient_generate_completion openai_then_anthropic ''hi'' no_kwargs
          sample_world) =
     Inr \<lparr>success = True, data = Some ''hello'', error = None, status_code = None,
          response_time = Some (1 / 2), provider = Some ''anthropic'',
          model = Some ''claude-3-sonnet-20240229'', tokens_used = Some 5\<rparr>
   \<and> request_count (fst (snd (UnifiedAPIClient_generate_completion openai_then_anthropic
        ''hi'' no_kwargs sample_world))) = 1
   \<and> network_calls (snd (snd (UnifiedAPIClient_generate_completion openai_then_anthropic
        ''hi'' no_kwargs sample_world))) =
     [Messages_create ''claude-3-sonnet-20240229''
        [[(''role'', ''user''), (''content'', ''hi'')]] 1000 0.7 1.0]
   \<and> UnifiedAPIClient_generate_chat_completion openai_then_anthropic
        [[(''role'', ''user''), (''content'', ''hi'')]] no_kwargs sample_world =
     UnifiedAPIClient_generate_completion openai_then_anthropic ''hi'' no_kwargs sample_world"
proof -
  have s: "[primary_provider openai_then_anthropic] @ fallback_providers openai_then_anthropic
             = [OPENAI] @ ANTHROPIC # [OPENAI]"
    by (simp add: openai_then_anthropic_def)
  have t: "success \<lparr>success = True, data = Some ''hello'', error = None, status_code = None,
          response_time = Some (1 / 2), provider = Some ''anthropic'',
          model = Some ''claude-3-sonnet-20240229'', tokens_used = Some 5\<rparr>"
    by simp
  note a = C1_first_success [OF s, THEN conjunct1, rule_format,
      OF sample_openai_fails(1) sample_anthropic_succeeds(1) t]
  note b = C1_first_success [OF s, THEN conjunct2, rule_format,
      OF sample_openai_fails(2) sample_anthropic_succeeds(2) t]
  show ?thesis
    unfolding a b
    by (simp add: sample_anthropic_succeeds(3)) (simp add: openai_then_anthropic_def)
qed

text \<open>
  Claim C2, with the provider field as the code sets it. If the attempts on all the
  providers of \<^verbatim>\<open>[primary] + fallbacks\<close> fail, \<^verbatim>\<open>generate_completion\<close> and
  \<^verbatim>\<open>generate_chat_completion\<close> return the synthetic response: not a success, no data,
  the error text "All AI providers failed", and the provider field set to the text
  "unified". The orchestrator is returned as it was: the request counter is not incremented.
\<close>

theorem C2_all_providers_failed:
  "(all_fail (\<lambda>c. client_generate_completion c prompt)
      ([primary_provider self] @ fallback_providers self) kw w = Some w' \<longrightarrow>
    UnifiedAPIClient_generate_completion self prompt kw w =
      (Inr \<lparr>success = False, data = None, error = Some ''All AI providers failed'',
            status_code = None, response_time = None, provider = Some ''unified'',
            model = None, tokens_used = None\<rparr>, self, w'))
   \<and> (all_fail (\<lambda>c. client_generate_chat_completion c messages)
      ([primary_provider self] @ fallback_providers self) kw w = Some w'' \<longrightarrow>
    UnifiedAPIClient_generate_chat_completion self messages kw w =
      (Inr \<lparr>success = False, data = None, error = Some ''All AI providers failed'',
            status_code = None, response_time = None, provider = Some ''unified'',
            model = None, tokens_used = None\<rparr>, self, w''))"
proof -
  have r: "\<lparr>success = False, data = None, error = Some ''All AI providers failed'',
            status_code = None, response_time = None, provider = Some ''unified'',
            model = None, tokens_used = None\<rparr> =
          (APIResponse_init False)
            \<lparr>error := Some ''All AI providers failed'', provider := Some ''unified''\<rparr>"
    by (simp add: APIResponse_init_def)
  show ?thesis
    unfolding UnifiedAPIClient_generate_completion_def
      UnifiedAPIClient_generate_chat_completion_def Let_def r
    by (intro conjI impI fallback_loop_all_fail)
qed

theorem C2_all_providers_failed_witness:
  "UnifiedAPIClient_generate_completion openai_then_anthropic ''hi'' no_kwargs no_key_world =
     (Inr \<lparr>success = False, data = None, error = Some ''All AI providers failed'',
           status_code = None, response_time = None, provider = Some ''unified'',
           model = None, tokens_used = None\<rparr>, openai_then_anthropic, no_key_world)
   \<and> UnifiedAPIClient_generate_chat_completion openai_then_anthropic
        [[(''role'', ''user''), (''content'', ''hi'')]] no_kwargs no_key_world =
     (Inr \<lparr>success = False, data = None, error = Some ''All AI providers failed'',
           status_code = None, response_time = None, provider = Some ''unified'',
           model = None, tokens_used = None\<rparr>, openai_then_anthropic, no_key_world)
   \<and> request_count openai_then_anthropic = 0"
proof -
  have a: "all_fail operation
             ([primary_provider openai_then_anthropic] @ fallback_providers openai_then_anthropic)
             no_kwargs no_key_world = Some no_key_world" for operation
    by (simp add: openai_then_anthropic_def all_fail_skip no_key_credential
          del: all_fail.simps(2))
  note b = C2_all_providers_failed [THEN conjunct1, rule_format, OF a]
  note c = C2_all_providers_failed [THEN conjunct2, rule_format, OF a]
  show ?thesis
    unfolding b c by (simp add: openai_then_anthropic_def)
qed

text \<open>
  The claim as worded has the provider field absent. With no key configured every provider
  of the sample orchestrator fails, and the response carries the provider "unified".
\<close>

theorem C2_provider_not_absent:
  "all_fail (\<lambda>c. client_generate_completion c ''hi'')
     ([primary_provider openai_then_anthropic] @ fallback_providers openai_then_anthropic)
     no_kwargs no_key_world = Some no_key_world
   \<and> (\<exists>r. fst (UnifiedAPIClient_generate_completion openai_then_anthropic ''hi'' no_kwargs
               no_key_world) = Inr r
          \<and> \<not> success r \<and> error r = Some ''All AI providers failed''
          \<and> provider r = Some ''unified'' \<and> provider r \<noteq> None)"
proof -
  have a: "all_fail (\<lambda>c. client_generate_completion c ''hi'')
             ([primary_provider openai_then_anthropic] @ fallback_providers openai_then_anthropic)
             no_kwargs no_key_world = Some no_key_world"
    by (simp add: openai_then_anthropic_def all_fail_skip no_key_credential
          del: all_fail.simps(2))
  show ?thesis
    unfolding UnifiedAPIClient_generate_completion_def Let_def
      fallback_loop_all_fail [OF a] a
    by (simp add: APIResponse_init_def)
qed

text \<open>
  Claim C6, as the code behaves. When neither the explicit argument nor the environment
  gives a credential for a provider, \<^verbatim>\<open>get_client\<close> raises \<^verbatim>\<open>APIClientError\<close>
  ("... API key not provided") and leaves the world as it was, so before any network
  call; the orchestrator's loop catches it like any other failure and goes on with the rest
  of the sequence. In particular, when the primary provider has no credential, both
  operations behave as the loop over the fallback providers alone.
\<close>

theorem C6_missing_credential:
  assumes "\<not> truthy (credential p kw w)"
  shows
    "APIClientFactory_get_client p kw w =
       (Inl (Exn APIClientError
              (case p of OPENAI \<Rightarrow> ''OpenAI API key not provided''
               | ANTHROPIC \<Rightarrow> ''Anthropic API key not provided'')), w)
     \<and> fallback_loop operation (p # ps) self kw w = fallback_loop operation ps self kw w
     \<and> (primary_provider self = p \<longrightarrow>
          UnifiedAPIClient_generate_completion self prompt kw w =
            fallback_loop (\<lambda>c. client_generate_completion c prompt)
              (fallback_providers self) self kw w
          \<and> UnifiedAPIClient_generate_chat_completion self messages kw w =
            fallback_loop (\<lambda>c. client_generate_chat_completion c messages)
              (fallback_providers self) self kw w)"
proof -
  have skip: "fallback_loop operation (p # ps) self kw w = fallback_loop operation ps self kw w"
    for operation ps
    by (rule fallback_loop_skip [OF assms])
  show ?thesis
    unfolding UnifiedAPIClient_generate_completion_def
      UnifiedAPIClient_generate_chat_completion_def Let_def
    using get_client_no_credential [OF assms] skip
    by (simp del: fallback_loop.simps)
qed

theorem C6_missing_credential_witness:
  "\<not> truthy (credential OPENAI no_kwargs anthropic_only_world)
   \<and> primary_provider openai_then_anthropic = OPENAI
   \<and> APIClientFactory_get_client OPENAI no_kwargs anthropic_only_world =
       (Inl (Exn APIClientError ''OpenAI API key not provided''), anthropic_only_world)
   \<and> UnifiedAPIClient_generate_completion openai_then_anthropic ''hi'' no_kwargs
       anthropic_only_world =
     fallback_loop (\<lambda>c. client_generate_completion c ''hi'') [ANTHROPIC, OPENAI]
       openai_then_anthropic no_kwargs anthropic_only_world
   \<and> UnifiedAPIClient_generate_chat_completion openai_then_anthropic [] no_kwargs
       anthropic_only_world =
     fallback_loop (\<lambda>c. client_generate_chat_completion c []) [ANTHROPIC, OPENAI]
       openai_then_anthropic no_kwargs anthropic_only_world"
proof -
  have p: "primary_provider openai_then_anthropic = OPENAI"
    and f: "fallback_providers openai_then_anthropic = [ANTHROPIC, OPENAI]"
    by (simp_all add: openai_then_anthropic_def)
  note a = C6_missing_credential [OF anthropic_only_credential,
      where self = openai_then_anthropic and prompt = "''hi''" and messages = "[]"]
  from a have b:
    "APIClientFactory_get_client OPENAI no_kwargs anthropic_only_world =
       (Inl (Exn APIClientError ''OpenAI API key not provided''), anthropic_only_world)"
    by simp
  from a p have c:
    "UnifiedAPIClient_generate_completion openai_then_anthropic ''hi'' no_kwargs
       anthropic_only_world =
     fallback_loop (\<lambda>c. client_generate_completion c ''hi'')
       (fallback_providers openai_then_anthropic) openai_then_anthropic no_kwargs
       anthropic_only_world"
    "UnifiedAPIClient_generate_chat_completion openai_then_anthropic [] no_kwargs
       anthropic_only_world =
     fallback_loop (\<lambda>c. client_generate_chat_completion c [])
       (fallback_providers openai_then_anthropic) openai_then_anthropic no_kwargs
       anthropic_only_world"
    by blast+
  show ?thesis
    unfolding c f using anthropic_only_credential p b by blast
qed

text \<open>
  The claim as worded has the missing credential surfaced to the orchestrator's caller.
  With no OpenAI key and OpenAI as the primary provider, the caller of the sample
  orchestrator receives the successful answer of the Anthropic fallback, obtained by a
  network call.
\<close>

theorem C6_folded_into_fallback:
  "\<not> truthy (credential OPENAI no_kwargs anthropic_only_world)
   \<and> primary_provider openai_then_anthropic = OPENAI
   \<and> fst (UnifiedAPIClient_generate_completion openai_then_anthropic ''hi'' no_kwargs
            anthropic_only_world) =
     Inr \<lparr>success = True, data = Some ''hello'', error = None, status_code = None,
          response_time = Some (1 / 2), provider = Some ''anthropic'',
          model = Some ''claude-3-sonnet-20240229'', tokens_used = Some 5\<rparr>
   \<and> network_calls (snd (snd (UnifiedAPIClient_generate_completion openai_then_anthropic
        ''hi'' no_kwargs anthropic_only_world))) =
     [Messages_create ''claude-3-sonnet-20240229''
        [[(''role'', ''user''), (''content'', ''hi'')]] 1000 0.7 1.0]"
proof -
  have "UnifiedAPIClient_generate_completion openai_then_anthropic ''hi'' no_kwargs
          anthropic_only_world =
        fallback_loop (\<lambda>c. client_generate_completion c ''hi'') [ANTHROPIC, OPENAI]
          openai_then_anthropic no_kwargs anthropic_only_world"
    unfolding UnifiedAPIClient_generate_completion_def Let_def
    by (simp add: openai_then_anthropic_def fallback_loop_skip [OF anthropic_only_credential]
          del: fallback_loop.simps)
  then show ?thesis
    using anthropic_only_succeeds anthropic_only_credential
    by (simp add: split_beta openai_then_anthropic_def)
qed

section \<open>The registry of handles\<close>







section \<open>An open circuit breaker\<close>

text \<open>
  The handles of the sample are the ones \<^verbatim>\<open>get_client\<close> constructs once the breakers are
  installed.
\<close>

lemma sample_handles:
  "fst (APIClientFactory_get_client OPENAI no_kwargs breakers_open_world) = Inr openai_handle"
  "fst (APIClientFactory_get_client ANTHROPIC no_kwargs
          (snd (APIClientFactory_get_client OPENAI no_kwargs breakers_open_world))) =
   Inr anthropic_handle"
  by (simp_all add: adapter_defs sample_defs client_key_def)

text \<open>
  Claim C3. \<^verbatim>\<open>OpenAIClient._make_request\<close> is not callable (the decorator above it
  constructs an exception object), so for every handle, argument and world, whatever the
  state of the breaker, both OpenAI operations return the failed response with the text
  "API error: 'CircuitBreakerError' object is not callable" and leave the world as it was.
  The Anthropic adapter, whose \<^verbatim>\<open>_make_request\<close> has the same body without the decorator,
  returns in the world with the open breakers the failed response "API error: Anthropic
  service temporarily unavailable", the world unchanged: no network call.
\<close>

theorem C3_breaker_open:
  "OpenAIClient_generate_completion self prompt kw w =
     (Inr \<lparr>success = False, data = None,
           error = Some ''API error: 'CircuitBreakerError' object is not callable'',
           status_code = None, response_time = Some 0, provider = Some ''openai'',
           model = None, tokens_used = None\<rparr>, w)
   \<and> OpenAIClient_generate_chat_completion self messages kw w =
     (Inr \<lparr>success = False, data = None,
           error = Some ''API error: 'CircuitBreakerError' object is not callable'',
           status_code = None, response_time = Some 0, provider = Some ''openai'',
           model = None, tokens_used = None\<rparr>, w)
   \<and> (\<exists>a. circuit_breaker openai_handle = Some a
         \<and> breakers breakers_open_world OPENAI = Some a
         \<and> current_state (breaker_objects breakers_open_world a) = STATE_OPEN)
   \<and> (\<exists>a. circuit_breaker anthropic_handle = Some a
         \<and> breakers breakers_open_world ANTHROPIC = Some a
         \<and> current_state (breaker_objects breakers_open_world a) = STATE_OPEN)
   \<and> AnthropicClient_generate_chat_completion anthropic_handle
       [[(''role'', ''user''), (''content'', ''hi'')]] no_kwargs breakers_open_world =
     (Inr \<lparr>success = False, data = None,
           error = Some ''API error: Anthropic service temporarily unavailable'',
           status_code = None, response_time = Some 0, provider = Some ''anthropic'',
           model = None, tokens_used = None\<rparr>, breakers_open_world)"
proof -
  have o: "circuit_breaker openai_handle = Some 0"
    "breakers breakers_open_world OPENAI = Some 0"
    "circuit_breaker anthropic_handle = Some 1"
    "breakers breakers_open_world ANTHROPIC = Some 1"
    "current_state (breaker_objects breakers_open_world a) = STATE_OPEN" for a
    by (simp_all add: sample_defs Let_def)
  have a: "AnthropicClient_make_request anthropic_handle request_func breakers_open_world =
      (Inl (Exn APIClientError ''Anthropic service temporarily unavailable''),
       breakers_open_world)" for request_func :: "world \<Rightarrow> (exn + anthropic_message) \<times> world"
    by (rule Anthropic_make_request_open [OF o(3) o(5)])
  have b: "AnthropicClient_generate_chat_completion anthropic_handle
       [[(''role'', ''user''), (''content'', ''hi'')]] no_kwargs breakers_open_world =
     (Inr \<lparr>success = False, data = None,
           error = Some ''API error: Anthropic service temporarily unavailable'',
           status_code = None, response_time = Some 0, provider = Some ''anthropic'',
           model = None, tokens_used = None\<rparr>, breakers_open_world)"
    by (simp add: AnthropicClient_generate_chat_completion_def a unavailable_error
          APIResponse_init_def)
  show ?thesis
    using b o
    by (simp add: OpenAIClient_generate_completion_eq OpenAIClient_generate_chat_completion_eq
          APIResponse_init_def)
qed

section \<open>The cache manager\<close>





end
